theory Spec2Isabelle
  imports Complex_Main
begin

section \<open>Python values and built-ins used by the scrapers\<close>

text \<open>
  The scraped texts are modelled as ASCII strings. Python's \<open>str\<close> methods and the
  \<open>float\<close> and \<open>int\<close> constructors are written out for ASCII input, each with the
  failure it raises as a value.
\<close>

datatype exn =
    ValueError
  | IndexError
  | KeyError
  | AttributeError
  | TimeoutException
  | NoSuchElementException
  | WebDriverException

text \<open>
  A Python \<open>float\<close> obtained from text: a finite number, an infinity with its sign
  (\<open>Inf True\<close> is the negative one) or not-a-number. \<open>Finite v\<close> stands for the binary64
  number nearest to the rational \<open>v\<close>: the rounding inside the range is not computed (it
  keeps the sign and the order, and the value 1234.5 of the specification is a binary64
  number), the overflow beyond the range is (see \<open>to_double\<close>).
\<close>

datatype pyfloat = Finite rat | Inf bool | NaN


definition is_digit :: "char \<Rightarrow> bool" where
  "is_digit c = (48 \<le> (of_char c :: nat) \<and> (of_char c :: nat) \<le> 57)"

definition is_upper :: "char \<Rightarrow> bool" where
  "is_upper c = (65 \<le> (of_char c :: nat) \<and> (of_char c :: nat) \<le> 90)"

definition is_lower :: "char \<Rightarrow> bool" where
  "is_lower c = (97 \<le> (of_char c :: nat) \<and> (of_char c :: nat) \<le> 122)"

definition is_letter :: "char \<Rightarrow> bool" where
  "is_letter c = (is_upper c \<or> is_lower c)"

text \<open>The class \<open>\w\<close> of \<open>re\<close> on ASCII text: letters, digits and the underscore.\<close>

definition is_word :: "char \<Rightarrow> bool" where
  "is_word c = (is_letter c \<or> is_digit c \<or> c = CHR ''_'')"

text \<open>
  \<open>str.isspace\<close>, which \<open>str.split()\<close> and \<open>str.strip()\<close> use: tab to carriage return,
  the four separators 0x1c to 0x1f and the blank.
\<close>

definition str_isspace :: "char \<Rightarrow> bool" where
  "str_isspace c =
     ((9 \<le> (of_char c :: nat) \<and> (of_char c :: nat) \<le> 13)
      \<or> (28 \<le> (of_char c :: nat) \<and> (of_char c :: nat) \<le> 32))"

text \<open>The C-level blank test that \<open>float\<close> and \<open>int\<close> apply to an ASCII string.\<close>

definition c_isspace :: "char \<Rightarrow> bool" where
  "c_isspace c =
     ((9 \<le> (of_char c :: nat) \<and> (of_char c :: nat) \<le> 13) \<or> (of_char c :: nat) = 32)"

definition to_lower :: "char \<Rightarrow> char" where
  "to_lower c = (if is_upper c then char_of ((of_char c :: nat) + 32) else c)"

definition lower :: "string \<Rightarrow> string" where
  "lower s = map to_lower s"

definition digit_val :: "char \<Rightarrow> nat" where
  "digit_val c = (of_char c :: nat) - 48"

definition digits_val :: "string \<Rightarrow> nat" where
  "digits_val ds = foldl (\<lambda>a c. 10 * a + digit_val c) 0 ds"

primrec starts_with :: "string \<Rightarrow> string \<Rightarrow> bool" where
  "starts_with [] s = True"
| "starts_with (p # ps) s = (case s of [] \<Rightarrow> False | c # cs \<Rightarrow> p = c \<and> starts_with ps cs)"

text \<open>\<open>sub in s\<close> on strings.\<close>

primrec contains :: "string \<Rightarrow> string \<Rightarrow> bool" where
  "contains sub [] = (sub = [])"
| "contains sub (c # cs) = (starts_with sub (c # cs) \<or> contains sub cs)"

text \<open>
  \<open>s.replace(old, new)\<close>: every non-overlapping occurrence, from the left. The counter is
  the number of characters of a matched occurrence still to be passed over.
\<close>

fun replace_aux :: "string \<Rightarrow> string \<Rightarrow> nat \<Rightarrow> string \<Rightarrow> string" where
  "replace_aux old new k [] = (if old = [] then new else [])"
| "replace_aux old new (Suc k) (c # cs) = replace_aux old new k cs"
| "replace_aux old new 0 (c # cs) =
     (if old = [] then new @ c # replace_aux old new 0 cs
      else if starts_with old (c # cs) then new @ replace_aux old new (length old - 1) cs
      else c # replace_aux old new 0 cs)"

definition replace :: "string \<Rightarrow> string \<Rightarrow> string \<Rightarrow> string" where
  "replace old new s = replace_aux old new 0 s"

text \<open>\<open>s.split()\<close>: the maximal runs of non-blank characters.\<close>

fun split_aux :: "string \<Rightarrow> string \<Rightarrow> string list" where
  "split_aux cur [] = (if cur = [] then [] else [cur])"
| "split_aux cur (c # cs) =
     (if str_isspace c then (if cur = [] then split_aux [] cs else cur # split_aux [] cs)
      else split_aux (cur @ [c]) cs)"

definition split :: "string \<Rightarrow> string list" where
  "split s = split_aux [] s"

definition strip :: "string \<Rightarrow> string" where
  "strip s = rev (dropWhile str_isspace (rev (dropWhile str_isspace s)))"

definition c_strip :: "string \<Rightarrow> string" where
  "c_strip s = rev (dropWhile c_isspace (rev (dropWhile c_isspace s)))"

text \<open>
  Underscores in a numeric literal: allowed only between two digits; they are removed
  before the number is read. The first argument is the previous character.
\<close>

fun drop_underscores :: "char \<Rightarrow> string \<Rightarrow> string option" where
  "drop_underscores prev [] = (if prev = CHR ''_'' then None else Some [])"
| "drop_underscores prev (c # cs) =
     (if c = CHR ''_'' then (if is_digit prev then drop_underscores c cs else None)
      else if prev = CHR ''_'' \<and> \<not> is_digit c then None
      else map_option ((#) c) (drop_underscores c cs))"

definition read_sign :: "string \<Rightarrow> bool \<times> string" where
  "read_sign s =
     (case s of
        [] \<Rightarrow> (False, [])
      | c # cs \<Rightarrow> if c = CHR ''-'' then (True, cs) else if c = CHR ''+'' then (False, cs)
                  else (False, s))"

definition pow10 :: "int \<Rightarrow> rat" where
  "pow10 e = (if 0 \<le> e then 10 ^ nat e else 1 / 10 ^ nat (- e))"

text \<open>
  The exponent part of a decimal literal, read from the text that follows the mantissa:
  nothing, or \<open>e\<close>/\<open>E\<close>, an optional sign and at least one digit, up to the end of the text.
\<close>

definition read_exponent :: "string \<Rightarrow> int option" where
  "read_exponent s =
     (case s of
        [] \<Rightarrow> Some 0
      | c # cs \<Rightarrow>
          if c = CHR ''e'' \<or> c = CHR ''E'' then
            (case read_sign cs of
               (neg, ds) \<Rightarrow>
                 if ds \<noteq> [] \<and> list_all is_digit ds
                 then Some (if neg then - int (digits_val ds) else int (digits_val ds))
                 else None)
          else None)"

text \<open>
  An unsigned decimal literal: digits, an optional point with digits, at least one digit
  in all, then the exponent part.
\<close>

definition read_decimal :: "string \<Rightarrow> rat option" where
  "read_decimal s =
     (let ip = takeWhile is_digit s;
          r1 = dropWhile is_digit s;
          fp = (case r1 of [] \<Rightarrow> [] | c # cs \<Rightarrow> if c = CHR ''.'' then takeWhile is_digit cs else []);
          r2 = (case r1 of [] \<Rightarrow> [] | c # cs \<Rightarrow> if c = CHR ''.'' then dropWhile is_digit cs else r1)
      in if ip = [] \<and> fp = [] then None
         else (case read_exponent r2 of
                 None \<Rightarrow> None
               | Some e \<Rightarrow> Some (of_nat (digits_val (ip @ fp)) * pow10 (e - int (length fp)))))"

text \<open>
  The range of binary64. A decimal value at or beyond \<open>2^1024 - 2^970\<close>, half-way between
  the largest binary64 number and \<open>2^1024\<close>, is read as an infinity: \<open>float\<close> does not
  raise on overflow.
\<close>

definition float_overflow :: rat where
  "float_overflow = 2 ^ 1024 - 2 ^ 970"

definition to_double :: "rat \<Rightarrow> pyfloat" where
  "to_double v =
     (if float_overflow \<le> v then Inf False
      else if v \<le> - float_overflow then Inf True
      else Finite v)"

text \<open>\<open>float(s)\<close> for a string \<open>s\<close>; \<open>ValueError\<close> when the text is not a number.\<close>

definition py_float :: "string \<Rightarrow> exn + pyfloat" where
  "py_float s =
     (case drop_underscores (CHR 0x00) (c_strip s) of
        None \<Rightarrow> Inl ValueError
      | Some t \<Rightarrow>
          (case read_sign t of
             (neg, u) \<Rightarrow>
               if lower u = ''inf'' \<or> lower u = ''infinity'' then Inr (Inf neg)
               else if lower u = ''nan'' then Inr NaN
               else (case read_decimal u of
                       None \<Rightarrow> Inl ValueError
                     | Some v \<Rightarrow> Inr (to_double (if neg then - v else v)))))"

text \<open>\<open>int(s)\<close> for a string \<open>s\<close>, base ten.\<close>

definition py_int :: "string \<Rightarrow> exn + int" where
  "py_int s =
     (case drop_underscores (CHR 0x00) (c_strip s) of
        None \<Rightarrow> Inl ValueError
      | Some t \<Rightarrow>
          (case read_sign t of
             (neg, ds) \<Rightarrow>
               if ds \<noteq> [] \<and> list_all is_digit ds
               then Inr (if neg then - int (digits_val ds) else int (digits_val ds))
               else Inl ValueError))"

section \<open>Normalisation of the scraped texts\<close>

text \<open>
  \<open>fetch_price\<close> (main.py):
  \<^verbatim>\<open>price_val = float(re.sub(r"[^\d\.]", "", price_text))\<close>
\<close>

definition fetch_price_val :: "string \<Rightarrow> exn + pyfloat" where
  "fetch_price_val price_text =
     py_float (filter (\<lambda>c. is_digit c \<or> c = CHR ''.'') price_text)"

text \<open>
  \<open>search_ethiopian\<close> (main1.py):
  \<^verbatim>\<open>price = float(price_txt.split()[-1].replace(",", ""))\<close>
  \<^verbatim>\<open>stops = int(stops_txt.split()[0])\<close>
\<close>

definition ethiopian_price :: "string \<Rightarrow> exn + pyfloat" where
  "ethiopian_price price_txt =
     (case split price_txt of
        [] \<Rightarrow> Inl IndexError
      | w # ws \<Rightarrow> py_float (replace '','' [] (last (w # ws))))"

definition ethiopian_stops :: "string \<Rightarrow> exn + int" where
  "ethiopian_stops stops_txt =
     (case split stops_txt of
        [] \<Rightarrow> Inl IndexError
      | w # ws \<Rightarrow> py_int w)"

text \<open>
  \<open>search_kenya\<close> (main1.py):
  \<^verbatim>\<open>price = float(price_txt.replace("USD", "").replace(",", "").strip())\<close>
  \<^verbatim>\<open>stops = 0 if "Non-stop" in stops else int(stops.split()[0])\<close>
\<close>

definition kenya_price :: "string \<Rightarrow> exn + pyfloat" where
  "kenya_price price_txt =
     py_float (strip (replace '','' [] (replace ''USD'' [] price_txt)))"

definition kenya_stops :: "string \<Rightarrow> exn + int" where
  "kenya_stops stops_txt =
     (if contains ''Non-stop'' stops_txt then Inr 0
      else (case split stops_txt of
              [] \<Rightarrow> Inl IndexError
            | w # ws \<Rightarrow> py_int w))"

text \<open>
  \<open>clean_code\<close> (main.py):
  \<^verbatim>\<open>m = re.search(r"\((\w{3})\)", city)\<close>
  \<^verbatim>\<open>return m.group(1).lower() if m else None\<close>
  \<open>match_here\<close> is the pattern anchored at the head of the text, \<open>re_search\<close> tries
  every position from the left and returns group 1 of the first match.
\<close>

fun match_here :: "string \<Rightarrow> string option" where
  "match_here (p # a # b # c # q # rest) =
     (if p = CHR ''('' \<and> is_word a \<and> is_word b \<and> is_word c \<and> q = CHR '')''
      then Some [a, b, c] else None)"
| "match_here s = None"

fun re_search :: "string \<Rightarrow> string option" where
  "re_search [] = None"
| "re_search (x # xs) =
     (case match_here (x # xs) of Some g \<Rightarrow> Some g | None \<Rightarrow> re_search xs)"

definition clean_code :: "string \<Rightarrow> string option" where
  "clean_code city = (case re_search city of Some g \<Rightarrow> Some (lower g) | None \<Rightarrow> None)"

text \<open>\<open>str(n)\<close> for an integer, as the f-strings format the passenger count.\<close>

fun str_nat :: "nat \<Rightarrow> string" where
  "str_nat n =
     (if n < 10 then [char_of (48 + n)] else str_nat (n div 10) @ [char_of (48 + n mod 10)])"

definition str_int :: "int \<Rightarrow> string" where
  "str_int i = (if i < 0 then CHR ''-'' # str_nat (nat (- i)) else str_nat (nat i))"

section \<open>config.py\<close>

definition DEPARTURE_DATES :: "string list" where
  "DEPARTURE_DATES = [''2025-07-06'', ''2025-07-07'']"

definition RETURN_DATE :: string where
  "RETURN_DATE = ''2025-07-09''"

definition CURRENCY :: string where
  "CURRENCY = ''USD''"

section \<open>The browser session and the sites\<close>

text \<open>
  The browser session is the shared resource of a run: the addresses it was sent to, in
  order, and the number of times \<open>driver.quit()\<close> was called on it.
\<close>

record session =
  visited :: "string list"
  quit_calls :: nat

definition and_then :: "exn + 'a \<Rightarrow> ('a \<Rightarrow> exn + 'b) \<Rightarrow> exn + 'b" where
  "and_then m f = (case m of Inl e \<Rightarrow> Inl e | Inr x \<Rightarrow> f x)"

text \<open>\<open>d[k]\<close> on a dictionary read from JSON: \<open>KeyError\<close> when the key is absent.\<close>

definition key :: "'a option \<Rightarrow> exn + 'a" where
  "key v = (case v of None \<Rightarrow> Inl KeyError | Some x \<Rightarrow> Inr x)"

definition check :: "exn option \<Rightarrow> exn + unit" where
  "check r = (case r of None \<Rightarrow> Inr () | Some e \<Rightarrow> Inl e)"

text \<open>\<open>xs[0]\<close>.\<close>

definition first :: "'a list \<Rightarrow> exn + 'a" where
  "first xs = (case xs of [] \<Rightarrow> Inl IndexError | x # _ \<Rightarrow> Inr x)"

section \<open>main1.py: the airline adapters\<close>

text \<open>A quote as the adapters return it: \<open>{"price": ..., "stops": ..., "duration": ...}\<close>.\<close>

record quote =
  price :: pyfloat
  stops :: int
  duration :: string

text \<open>
  A result card of a rendered page, as the adapter reads it: for each of the three
  sub-elements either its text, or the exception that \<open>find_element(...).text\<close> raises.
\<close>

record card =
  price_elem :: "exn + string"
  stops_elem :: "exn + string"
  duration_elem :: "exn + string"

text \<open>
  What the site does on one page load. \<open>get_error\<close> is the exception of \<open>driver.get\<close>, if
  any; \<open>form k\<close> is the exception raised by the \<open>k\<close>-th group of form interactions of
  \<open>search_kenya\<close>, if any; \<open>results\<close> is the outcome of the bounded wait for the result
  cards: \<open>Inl TimeoutException\<close> when the wait expires, otherwise the cards found.
  A site is a function from the number of earlier page loads of the session to the page.
\<close>

record page =
  get_error :: "exn option"
  form :: "nat \<Rightarrow> exn option"
  results :: "exn + card list"

type_synonym site = "nat \<Rightarrow> page"

text \<open>
  A route object of routes.json. A key that the object lacks is \<open>None\<close>; \<open>adults\<close> is
  \<open>r["pax"]["adults"]\<close>, \<open>ret\<close> is \<open>r["return"]\<close>, \<open>rid\<close> is \<open>r["id"]\<close>.
\<close>

record route =
  rid :: "string option"
  origin :: "string option"
  dest :: "string option"
  depart :: "string list option"
  ret :: "string option"
  adults :: "int option"
  airlines :: "string list option"

definition ethiopian_url :: "string \<Rightarrow> string \<Rightarrow> string \<Rightarrow> string \<Rightarrow> int \<Rightarrow> string" where
  "ethiopian_url org dst dep rt n =
     ''https://book.ethiopianairlines.com/et/booking/flight-results''
     @ ''?tripType=RT&origin='' @ org @ ''&destination='' @ dst
     @ ''&departureDate='' @ dep @ ''&returnDate='' @ rt
     @ ''&adults='' @ str_int n @ ''&currency=USD''"

definition ethiopian_card :: "card \<Rightarrow> exn + quote" where
  "ethiopian_card c =
     and_then (price_elem c) (\<lambda>price_txt.
     and_then (ethiopian_price price_txt) (\<lambda>p.
     and_then (stops_elem c) (\<lambda>stops_txt.
     and_then (ethiopian_stops stops_txt) (\<lambda>n.
     and_then (duration_elem c) (\<lambda>d.
     Inr \<lparr>price = p, stops = n, duration = d\<rparr>)))))"

definition kenya_card :: "card \<Rightarrow> exn + quote" where
  "kenya_card c =
     and_then (price_elem c) (\<lambda>price_txt.
     and_then (kenya_price price_txt) (\<lambda>p.
     and_then (stops_elem c) (\<lambda>stops_txt.
     and_then (kenya_stops stops_txt) (\<lambda>n.
     and_then (duration_elem c) (\<lambda>d.
     Inr \<lparr>price = p, stops = n, duration = d\<rparr>)))))"

text \<open>
  The loop \<open>for card in cards[:3]\<close>: the quotes are appended one by one, and an exception
  on any card leaves the function, the quotes collected so far with it.
\<close>

fun scrape_cards :: "(card \<Rightarrow> exn + quote) \<Rightarrow> card list \<Rightarrow> quote list \<Rightarrow> exn + quote list" where
  "scrape_cards parse [] quotes = Inr quotes"
| "scrape_cards parse (c # cs) quotes =
     and_then (parse c) (\<lambda>q. scrape_cards parse cs (quotes @ [q]))"

text \<open>
  \<open>search_ethiopian(driver, r)\<close>. The route is read first; the exception of a missing key
  is raised before the browser is used.
\<close>

definition search_ethiopian ::
    "site \<Rightarrow> route \<Rightarrow> 'a session_scheme \<Rightarrow> (exn + quote list) \<times> 'a session_scheme" where
  "search_ethiopian web r drv =
     (case and_then (key (origin r)) (\<lambda>org.
           and_then (key (dest r)) (\<lambda>dst.
           and_then (and_then (key (depart r)) first) (\<lambda>dep.
           and_then (key (ret r)) (\<lambda>rt.
           and_then (key (adults r)) (\<lambda>n.
           Inr (ethiopian_url org dst dep rt n)))))) of
        Inl e \<Rightarrow> (Inl e, drv)
      | Inr url \<Rightarrow>
          (and_then (check (get_error (web (length (visited drv))))) (\<lambda>_.
           and_then (results (web (length (visited drv)))) (\<lambda>cards.
           scrape_cards ethiopian_card (take 3 cards) [])),
           drv\<lparr>visited := visited drv @ [url]\<rparr>))"

text \<open>
  \<open>search_kenya(driver, r)\<close>. The form is filled in five groups of browser interactions;
  between them the route's keys are read, in the order of the source:
  group 0 up to \<open>frm.clear()\<close>, then \<open>r["origin"]\<close>; group 1 up to \<open>to.clear()\<close>, then
  \<open>r["dest"]\<close>; group 2 up to \<open>dep_box.clear()\<close>, then \<open>r["depart"][0]\<close>; group 3 up to
  \<open>ret_box.clear()\<close>, then \<open>r["return"]\<close>; group 4 up to the click on the search button;
  then the bounded wait for the result cards. The passenger count is never entered.
\<close>

definition search_kenya ::
    "site \<Rightarrow> route \<Rightarrow> 'a session_scheme \<Rightarrow> (exn + quote list) \<times> 'a session_scheme" where
  "search_kenya web r drv =
     (let pg = web (length (visited drv)) in
      (and_then (check (get_error pg)) (\<lambda>_.
       and_then (check (form pg 0)) (\<lambda>_.
       and_then (key (origin r)) (\<lambda>org.
       and_then (check (form pg 1)) (\<lambda>_.
       and_then (key (dest r)) (\<lambda>dst.
       and_then (check (form pg 2)) (\<lambda>_.
       and_then (and_then (key (depart r)) first) (\<lambda>dep.
       and_then (check (form pg 3)) (\<lambda>_.
       and_then (key (ret r)) (\<lambda>rt.
       and_then (check (form pg 4)) (\<lambda>_.
       and_then (results pg) (\<lambda>cards.
       scrape_cards kenya_card (take 3 cards) []))))))))))),
       drv\<lparr>visited := visited drv @ [''https://www.kenya-airways.com/en-gh/book-a-flight'']\<rparr>))"

text \<open>The placeholder stubs return the empty list and do not touch the browser.\<close>

definition search_asky ::
    "site \<Rightarrow> route \<Rightarrow> 'a session_scheme \<Rightarrow> (exn + quote list) \<times> 'a session_scheme" where
  "search_asky web r drv = (Inr [], drv)"

definition search_africaworld ::
    "site \<Rightarrow> route \<Rightarrow> 'a session_scheme \<Rightarrow> (exn + quote list) \<times> 'a session_scheme" where
  "search_africaworld web r drv = (Inr [], drv)"

definition search_turkish ::
    "site \<Rightarrow> route \<Rightarrow> 'a session_scheme \<Rightarrow> (exn + quote list) \<times> 'a session_scheme" where
  "search_turkish web r drv = (Inr [], drv)"

definition search_qatar ::
    "site \<Rightarrow> route \<Rightarrow> 'a session_scheme \<Rightarrow> (exn + quote list) \<times> 'a session_scheme" where
  "search_qatar web r drv = (Inr [], drv)"

definition search_delta ::
    "site \<Rightarrow> route \<Rightarrow> 'a session_scheme \<Rightarrow> (exn + quote list) \<times> 'a session_scheme" where
  "search_delta web r drv = (Inr [], drv)"

section \<open>main1.py: the registry and the run\<close>

text \<open>The function objects that the registry can hold.\<close>

datatype parser =
    Search_ethiopian
  | Search_kenya
  | Search_asky
  | Search_africaworld
  | Search_turkish
  | Search_qatar
  | Search_delta

text \<open>\<open>AIRLINE_FUNCS\<close> after the \<open>update\<close> at module level; \<open>AIRLINE_FUNCS.get(airline)\<close>.\<close>

definition AIRLINE_FUNCS :: "string \<Rightarrow> parser option" where
  "AIRLINE_FUNCS =
     map_of
       [(''Kenya Airways'', Search_kenya),
        (''ASKY'', Search_asky),
        (''Africa World Airlines'', Search_africaworld),
        (''Turkish Airlines'', Search_turkish),
        (''Qatar Airways'', Search_qatar),
        (''Delta Air Lines'', Search_delta)]"

text \<open>
  A line of flight_quotes.csv: the header text, or a row written by \<open>csv.writer\<close> with
  its five fields.
\<close>

datatype csv_line =
    Header_line string
  | Data_line string string pyfloat int string

text \<open>
  What \<open>print\<close> wrote: the text of a line, or the line
  \<open>[error] {airline} {r['id']} -> {e}\<close> with its three parts.
\<close>

datatype out_line =
    Line string
  | Error_line string string exn

text \<open>
  The state of a run of main1.py: the browser session, the output file, the standard
  output, and the adapter functions called so far.
\<close>

record run_state = session +
  csv_file :: "csv_line list"
  stdout :: "out_line list"
  invoked :: "parser list"

text \<open>\<open>func(driver, r)\<close> for a function object of the registry.\<close>

definition call :: "parser \<Rightarrow> site \<Rightarrow> route \<Rightarrow> run_state \<Rightarrow> (exn + quote list) \<times> run_state" where
  "call func web r st =
     (let st1 = st\<lparr>invoked := invoked st @ [func]\<rparr> in
      case func of
        Search_ethiopian \<Rightarrow> search_ethiopian web r st1
      | Search_kenya \<Rightarrow> search_kenya web r st1
      | Search_asky \<Rightarrow> search_asky web r st1
      | Search_africaworld \<Rightarrow> search_africaworld web r st1
      | Search_turkish \<Rightarrow> search_turkish web r st1
      | Search_qatar \<Rightarrow> search_qatar web r st1
      | Search_delta \<Rightarrow> search_delta web r st1)"

text \<open>
  The loop \<open>for q in quotes[:3]\<close> of \<open>run\<close>: one row appended to the file per quote. The
  rows already written stay when a later one raises.
\<close>

fun write_quotes :: "route \<Rightarrow> string \<Rightarrow> quote list \<Rightarrow> run_state \<Rightarrow> exn option \<times> run_state" where
  "write_quotes r airline [] st = (None, st)"
| "write_quotes r airline (q # qs) st =
     (case and_then (key (origin r)) (\<lambda>org.
           and_then (key (dest r)) (\<lambda>dst. Inr (org @ ''-'' @ dst))) of
        Inl e \<Rightarrow> (Some e, st)
      | Inr label \<Rightarrow>
          write_quotes r airline qs
            (st\<lparr>csv_file := csv_file st
                 @ [Data_line label airline (price q) (stops q) (duration q)]\<rparr>))"

text \<open>
  The handler \<open>except Exception as e: print(f"[error] {airline} {r['id']} ...")\<close>. The
  lookup \<open>r['id']\<close> is made inside the handler, so its \<open>KeyError\<close> leaves the loop.
\<close>

definition report_error :: "route \<Rightarrow> string \<Rightarrow> exn \<Rightarrow> run_state \<Rightarrow> exn option \<times> run_state" where
  "report_error r airline e st =
     (case rid r of
        None \<Rightarrow> (Some KeyError, st)
      | Some i \<Rightarrow> (None, st\<lparr>stdout := stdout st @ [Error_line airline i e]\<rparr>))"

text \<open>
  The body of \<open>for airline in r["airlines"]\<close>. The result is the exception that leaves
  the loop, if any.
\<close>

definition run_airline :: "site \<Rightarrow> route \<Rightarrow> string \<Rightarrow> run_state \<Rightarrow> exn option \<times> run_state" where
  "run_airline web r airline st =
     (case AIRLINE_FUNCS airline of
        None \<Rightarrow> (None, st\<lparr>stdout := stdout st @ [Line (''[skip] '' @ airline @ '': no parser yet'')]\<rparr>)
      | Some func \<Rightarrow>
          (case call func web r st of
             (Inl e, st1) \<Rightarrow> report_error r airline e st1
           | (Inr quotes, st1) \<Rightarrow>
               (case write_quotes r airline (take 3 quotes) st1 of
                  (Some e, st2) \<Rightarrow> report_error r airline e st2
                | (None, st2) \<Rightarrow> (None, st2))))"

fun run_airlines :: "site \<Rightarrow> route \<Rightarrow> string list \<Rightarrow> run_state \<Rightarrow> exn option \<times> run_state" where
  "run_airlines web r [] st = (None, st)"
| "run_airlines web r (airline # rest) st =
     (case run_airline web r airline st of
        (Some e, st1) \<Rightarrow> (Some e, st1)
      | (None, st1) \<Rightarrow> run_airlines web r rest st1)"

fun run_routes :: "site \<Rightarrow> route list \<Rightarrow> run_state \<Rightarrow> exn option \<times> run_state" where
  "run_routes web [] st = (None, st)"
| "run_routes web (r # rs) st =
     (case airlines r of
        None \<Rightarrow> (Some KeyError, st)
      | Some names \<Rightarrow>
          (case run_airlines web r names st of
             (Some e, st1) \<Rightarrow> (Some e, st1)
           | (None, st1) \<Rightarrow> run_routes web rs st1))"

definition csv_header :: string where
  "csv_header = ''route,airline,price_usd,stops,duration''"

text \<open>
  \<open>run()\<close>. \<open>routes_json\<close> is the outcome of reading routes.json, \<open>launch\<close> the exception of
  \<open>make_driver()\<close>, if any. The result is the exception that ends the run, if any, and the
  final state. \<open>driver.quit()\<close> is the last statement, after the loops.
\<close>

definition run ::
    "exn + route list \<Rightarrow> exn option \<Rightarrow> site \<Rightarrow> run_state \<Rightarrow> exn option \<times> run_state" where
  "run routes_json launch web st =
     (case routes_json of
        Inl e \<Rightarrow> (Some e, st)
      | Inr routes \<Rightarrow>
          (let st1 = st\<lparr>csv_file := [Header_line csv_header]\<rparr> in
           case launch of
             Some e \<Rightarrow> (Some e, st1)
           | None \<Rightarrow>
               (case run_routes web routes st1 of
                  (Some e, st2) \<Rightarrow> (Some e, st2)
                | (None, st2) \<Rightarrow> (None, st2\<lparr>quit_calls := quit_calls st2 + 1\<rparr>))))"

section \<open>main.py: the fare lookup over the roster\<close>

definition make_url :: "string \<Rightarrow> string \<Rightarrow> string \<Rightarrow> int \<Rightarrow> string" where
  "make_url org dep_date ret_date pax =
     ''https://www.skyscanner.com/transport/flights/''
     @ org @ ''/acc/'' @ replace ''-'' [] dep_date @ ''/'' @ replace ''-'' [] ret_date
     @ ''/?adults='' @ str_int pax @ ''&currency='' @ CURRENCY @ ''&preferdirects=false''"

text \<open>
  What the listing site does on one page load: \<open>price_span\<close> is the outcome of
  \<open>driver.get\<close> and of the bounded wait for the price element (\<open>Inl TimeoutException\<close>
  when the wait expires), otherwise the element's text; \<open>airline_name\<close> is the outcome of
  reading the airline name next to it.
\<close>

record listing =
  price_span :: "exn + string"
  airline_name :: "exn + string"

type_synonym listing_site = "nat \<Rightarrow> listing"

text \<open>A row of the FlightQuotes sheet.\<close>

record quote_row =
  City :: string
  Airline :: string
  ArriveDate :: string
  ReturnDate :: string
  FareType :: string
  SeatsCapable :: int
  RoundtripCost :: pyfloat

text \<open>The records that \<open>logging\<close> writes, one constructor per format string of main.py.\<close>

datatype level = INFO | WARNING | ERROR

datatype message =
    Driver_launched
  | Loading string
  | Found string string
  | Could_not_parse string
  | Travellers string int
  | No_price string string exn
  | Browser_closed
  | No_data_fetched
  | Collected nat
  | Sheet_overwritten

text \<open>
  The state of a run of main.py: the browser session, the list \<open>rows\<close>, the log, and the
  FlightQuotes sheet of the workbook (\<open>None\<close> while the workbook has no such sheet).
\<close>

record main_state = session +
  rows :: "quote_row list"
  log :: "(level \<times> message) list"
  sheet :: "quote_row list option"

definition logging :: "level \<Rightarrow> message \<Rightarrow> main_state \<Rightarrow> main_state" where
  "logging l m st = st\<lparr>log := log st @ [(l, m)]\<rparr>"

text \<open>\<open>fetch_price(driver, url)\<close>: the airline and the price, or the exception raised.\<close>

definition fetch_price ::
    "listing_site \<Rightarrow> string \<Rightarrow> main_state \<Rightarrow> (exn + string \<times> pyfloat) \<times> main_state" where
  "fetch_price web url st =
     (let pg = web (length (visited st));
          st1 = (logging INFO (Loading url) st)\<lparr>visited := visited st @ [url]\<rparr>
      in case price_span pg of
           Inl e \<Rightarrow> (Inl e, st1)
         | Inr price_text \<Rightarrow>
             (case fetch_price_val price_text of
                Inl e \<Rightarrow> (Inl e, st1)
              | Inr price_val \<Rightarrow>
                  (case airline_name pg of
                     Inl e \<Rightarrow> (Inl e, st1)
                   | Inr name \<Rightarrow>
                       (Inr (strip name, price_val),
                        logging INFO (Found (strip name) price_text) st1))))"

text \<open>
  The loop \<open>for dep in config.DEPARTURE_DATES\<close> with its \<open>try\<close>/\<open>except Exception\<close>: a
  failed lookup is logged and adds no row.
\<close>

fun fetch_dates ::
    "listing_site \<Rightarrow> string \<Rightarrow> string \<Rightarrow> int \<Rightarrow> string list \<Rightarrow> main_state \<Rightarrow> main_state" where
  "fetch_dates web city code pax [] st = st"
| "fetch_dates web city code pax (dep # deps) st =
     (case fetch_price web (make_url code dep RETURN_DATE pax) st of
        (Inl e, st1) \<Rightarrow>
          fetch_dates web city code pax deps (logging ERROR (No_price city dep e) st1)
      | (Inr (airline, cost), st1) \<Rightarrow>
          fetch_dates web city code pax deps
            (st1\<lparr>rows := rows st1
                 @ [\<lparr>City = city, Airline = airline, ArriveDate = dep,
                     ReturnDate = RETURN_DATE, FareType = ''WebEco'',
                     SeatsCapable = pax, RoundtripCost = cost\<rparr>]\<rparr>))"

text \<open>
  The countries sheet: one row per traveller record, with the city label and the headcount
  cell; a cell that \<open>int\<close> rejects is \<open>None\<close>. \<open>unique\<close> keeps the first occurrence of each
  label, in order; the headcount of a city is the cell of its first row.
\<close>

type_synonym roster = "(string \<times> int option) list"

fun unique_aux :: "'a list \<Rightarrow> 'a list \<Rightarrow> 'a list" where
  "unique_aux seen [] = []"
| "unique_aux seen (x # xs) =
     (if x \<in> set seen then unique_aux seen xs else x # unique_aux (seen @ [x]) xs)"

definition unique :: "'a list \<Rightarrow> 'a list" where
  "unique xs = unique_aux [] xs"

definition headcount_of :: "roster \<Rightarrow> string \<Rightarrow> exn + int" where
  "headcount_of df city =
     (case map_of df city of
        None \<Rightarrow> Inl IndexError
      | Some cell \<Rightarrow> (case cell of None \<Rightarrow> Inl ValueError | Some h \<Rightarrow> Inr h))"

text \<open>
  The loop \<open>for city in unique_cities\<close>, inside the outer \<open>try\<close>. The result is the
  exception that leaves the loop, if any. \<open>not code\<close> holds for \<open>None\<close> and for the empty
  string.
\<close>

fun main_loop ::
    "listing_site \<Rightarrow> roster \<Rightarrow> string list \<Rightarrow> main_state \<Rightarrow> exn option \<times> main_state" where
  "main_loop web df [] st = (None, st)"
| "main_loop web df (city # cities) st =
     (if contains ''Accra'' city then main_loop web df cities st
      else
        (case clean_code city of
           None \<Rightarrow> main_loop web df cities (logging WARNING (Could_not_parse city) st)
         | Some code \<Rightarrow>
             if code = [] then main_loop web df cities (logging WARNING (Could_not_parse city) st)
             else
               (case headcount_of df city of
                  Inl e \<Rightarrow> (Some e, st)
                | Inr headcount \<Rightarrow>
                    main_loop web df cities
                      (fetch_dates web city code (min headcount 9) DEPARTURE_DATES
                         (logging INFO (Travellers city headcount) st)))))"

text \<open>
  \<open>main()\<close>. \<open>workbook\<close> is the outcome of reading the countries sheet, \<open>launch\<close> the
  exception of \<open>launch_driver()\<close>, if any. The \<open>finally\<close> clause runs however the loop ends.
\<close>

definition main ::
    "exn + roster \<Rightarrow> exn option \<Rightarrow> listing_site \<Rightarrow> main_state \<Rightarrow> exn option \<times> main_state" where
  "main workbook launch web st =
     (case workbook of
        Inl e \<Rightarrow> (Some e, st)
      | Inr df \<Rightarrow>
          (case launch of
             Some e \<Rightarrow> (Some e, st\<lparr>rows := []\<rparr>)
           | None \<Rightarrow>
               (case main_loop web df (unique (map fst df))
                       (logging INFO Driver_launched (st\<lparr>rows := []\<rparr>)) of
                  (res, st1) \<Rightarrow>
                    (let st2 = logging INFO Browser_closed (st1\<lparr>quit_calls := quit_calls st1 + 1\<rparr>)
                     in case res of
                          Some e \<Rightarrow> (Some e, st2)
                        | None \<Rightarrow>
                            if rows st2 = [] then (None, logging ERROR No_data_fetched st2)
                            else
                              (None,
                               logging INFO Sheet_overwritten
                                 ((logging INFO (Collected (length (rows st2))) st2)
                                    \<lparr>sheet := Some (rows st2)\<rparr>))))))"

section \<open>Sample inputs and predicates of the statements\<close>

text \<open>A route object with every key, asking Kenya Airways for nine adults.\<close>

definition sample_route :: route where
  "sample_route =
     \<lparr>rid = Some ''jnb-acc'', origin = Some ''jnb'', dest = Some ''acc'',
      depart = Some [''2025-07-06'', ''2025-07-07''], ret = Some ''2025-07-09'',
      adults = Some 9, airlines = Some [''Kenya Airways'']\<rparr>"

text \<open>A card whose three sub-elements are present, with the given texts.\<close>

definition text_card :: "string \<Rightarrow> string \<Rightarrow> string \<Rightarrow> card" where
  "text_card p s d = \<lparr>price_elem = Inr p, stops_elem = Inr s, duration_elem = Inr d\<rparr>"

text \<open>A page that loads, whose form works and whose result cards are the given ones.\<close>

definition cards_page :: "card list \<Rightarrow> page" where
  "cards_page cs = \<lparr>get_error = None, form = (\<lambda>k. None), results = Inr cs\<rparr>"

text \<open>A page that loads and whose form works, but whose result cards never appear.\<close>

definition timeout_page :: page where
  "timeout_page = \<lparr>get_error = None, form = (\<lambda>k. None), results = Inl TimeoutException\<rparr>"

text \<open>The state before a run of main1.py, with the given content of flight_quotes.csv.\<close>

definition run_start :: "csv_line list \<Rightarrow> run_state" where
  "run_start old_csv =
     \<lparr>visited = [], quit_calls = 0, csv_file = old_csv, stdout = [], invoked = []\<rparr>"

text \<open>The state before a run of main.py, with the given FlightQuotes sheet.\<close>

definition main_start :: "quote_row list option \<Rightarrow> main_state" where
  "main_start old_sheet =
     \<lparr>visited = [], quit_calls = 0, rows = [], log = [], sheet = old_sheet\<rparr>"

text \<open>The roster of the examples: a local city, a city with a code, a label without one.\<close>

definition sample_roster :: roster where
  "sample_roster =
     [(''Accra (ACC)'', Some 3), (''Johannesburg (JNB)'', Some 50), (''Nairobi'', Some 2),
      (''Johannesburg (JNB)'', Some 4)]"

text \<open>A listing page whose price element never appears.\<close>

definition timeout_listing :: listing where
  "timeout_listing = \<lparr>price_span = Inl TimeoutException, airline_name = Inr ''Airline''\<rparr>"

text \<open>A listing page showing a fare.\<close>

definition fare_listing :: listing where
  "fare_listing = \<lparr>price_span = Inr ''$850.00'', airline_name = Inr '' Ethiopian Airlines ''\<rparr>"


text \<open>An address of the listing site whose destination segment is \<open>acc\<close>.\<close>

definition accra_url :: "string \<Rightarrow> bool" where
  "accra_url u =
     (\<exists>org rest. u = ''https://www.skyscanner.com/transport/flights/'' @ org @ ''/acc/'' @ rest)"

section \<open>Evaluation rules\<close>

declare str_nat.simps [simp del]

lemmas char_class_defs =
  is_digit_def is_upper_def is_lower_def is_letter_def is_word_def str_isspace_def c_isspace_def

lemmas py_defs =
  py_float_def py_int_def read_decimal_def read_exponent_def read_sign_def c_strip_def
  strip_def split_def replace_def lower_def to_lower_def digits_val_def digit_val_def pow10_def
  to_double_def float_overflow_def

lemmas parse_defs =
  fetch_price_val_def ethiopian_price_def ethiopian_stops_def kenya_price_def kenya_stops_def

lemmas flow_defs = and_then_def key_def check_def first_def

section \<open>Stops normalisation\<close>

text \<open>
  Claim C2. Stops normalisation maps "Non-stop" to 0, "1 Stop" to 1 and "2 Stops" to 2 in
  every adapter. \<open>search_kenya\<close> does so for the three texts. \<open>search_ethiopian\<close> maps
  "1 Stop" and "2 Stops" to 1 and 2, but has no test for the non-stop phrase: on
  "Non-stop" its \<open>int\<close> conversion raises \<open>ValueError\<close>, and a page showing one non-stop
  card makes the whole call of \<open>search_ethiopian\<close> fail.
\<close>

theorem C2_stops_normalisation:
  "kenya_stops ''Non-stop'' = Inr 0
   \<and> kenya_stops ''1 Stop'' = Inr 1
   \<and> kenya_stops ''2 Stops'' = Inr 2
   \<and> ethiopian_stops ''1 Stop'' = Inr 1
   \<and> ethiopian_stops ''2 Stops'' = Inr 2
   \<and> ethiopian_stops ''Non-stop'' = Inl ValueError
   \<and> fst (search_ethiopian (\<lambda>n. cards_page [text_card ''USD 850'' ''Non-stop'' ''14h 25m''])
            sample_route (run_start [])) = Inl ValueError"
  by (simp add: parse_defs py_defs char_class_defs flow_defs search_ethiopian_def
      ethiopian_card_def sample_route_def text_card_def cards_page_def run_start_def)

section \<open>main.py: what the loops leave unchanged\<close>

lemma logging_simps [simp]:
  "visited (logging l m st) = visited st"
  "quit_calls (logging l m st) = quit_calls st"
  "rows (logging l m st) = rows st"
  "sheet (logging l m st) = sheet st"
  "log (logging l m st) = log st @ [(l, m)]"
  by (simp_all add: logging_def)

lemma fetch_price_frame:
  "quit_calls (snd (fetch_price web url st)) = quit_calls st"
  "sheet (snd (fetch_price web url st)) = sheet st"
  "rows (snd (fetch_price web url st)) = rows st"
  "visited (snd (fetch_price web url st)) = visited st @ [url]"
  by (simp_all add: fetch_price_def Let_def split: sum.splits)

lemma fetch_dates_quit: "quit_calls (fetch_dates web city code pax deps st) = quit_calls st"
proof (induction deps arbitrary: st)
  case Nil
  show ?case by simp
next
  case (Cons dep deps)
  obtain r st1 where f: "fetch_price web (make_url code dep RETURN_DATE pax) st = (r, st1)"
    by (cases "fetch_price web (make_url code dep RETURN_DATE pax) st")
  have q: "quit_calls st1 = quit_calls st"
    using fetch_price_frame(1)[of web "make_url code dep RETURN_DATE pax" st] f by simp
  show ?case using f q Cons.IH
    by (cases r) (auto split: prod.splits)
qed


lemma main_loop_quit: "quit_calls (snd (main_loop web df cities st)) = quit_calls st"
  by (induction cities arbitrary: st)
     (auto simp: fetch_dates_quit split: option.splits sum.splits)


lemma main_quits_once:
  "quit_calls (snd (main (Inr df) None web st)) = quit_calls st + 1"
proof -
  obtain res st1 where m: "main_loop web df (unique (map fst df))
      (logging INFO Driver_launched (st\<lparr>rows := []\<rparr>)) = (res, st1)"
    by (cases "main_loop web df (unique (map fst df)) (logging INFO Driver_launched (st\<lparr>rows := []\<rparr>))")
  have "quit_calls st1 = quit_calls st"
    using main_loop_quit[of web df "unique (map fst df)" "logging INFO Driver_launched (st\<lparr>rows := []\<rparr>)"] m
    by simp
  then show ?thesis
    using m by (simp add: main_def Let_def split: option.splits)
qed

section \<open>main1.py: what the adapters and the loops leave unchanged\<close>

lemma search_kenya_state:
  "snd (search_kenya web r st)
     = st\<lparr>visited := visited st @ [''https://www.kenya-airways.com/en-gh/book-a-flight'']\<rparr>"
  by (simp add: search_kenya_def Let_def)

lemma search_ethiopian_frame:
  "quit_calls (snd (search_ethiopian web r (st :: run_state))) = quit_calls st"
  "csv_file (snd (search_ethiopian web r st)) = csv_file st"
  "stdout (snd (search_ethiopian web r st)) = stdout st"
  "invoked (snd (search_ethiopian web r st)) = invoked st"
  by (simp_all add: search_ethiopian_def split: sum.splits)

lemma call_frame:
  "quit_calls (snd (call func web r st)) = quit_calls st"
  "csv_file (snd (call func web r st)) = csv_file st"
  "stdout (snd (call func web r st)) = stdout st"
  "invoked (snd (call func web r st)) = invoked st @ [func]"
  by (cases func; simp add: call_def Let_def search_ethiopian_frame search_kenya_state
        search_asky_def search_africaworld_def search_turkish_def search_qatar_def
        search_delta_def)+

lemma write_quotes_frame:
  "quit_calls (snd (write_quotes r airline qs st)) = quit_calls st"
  "stdout (snd (write_quotes r airline qs st)) = stdout st"
  "invoked (snd (write_quotes r airline qs st)) = invoked st"
  by (induction qs arbitrary: st; simp split: sum.splits)+

lemma write_quotes_nil: "write_quotes r airline [] st = (None, st)"
  by simp

lemma report_error_frame:
  "quit_calls (snd (report_error r airline e st)) = quit_calls st"
  "csv_file (snd (report_error r airline e st)) = csv_file st"
  "invoked (snd (report_error r airline e st)) = invoked st"
  by (simp_all add: report_error_def split: option.splits)


lemma run_airline_quit: "quit_calls (snd (run_airline web r airline st)) = quit_calls st"
proof (cases "AIRLINE_FUNCS airline")
  case None
  then show ?thesis by (simp add: run_airline_def)
next
  case (Some func)
  obtain res st1 where c: "call func web r st = (res, st1)"
    by (cases "call func web r st")
  have i1: "quit_calls st1 = quit_calls st"
    using call_frame(1)[of func web r st] c by simp
  show ?thesis
  proof (cases res)
    case (Inl e)
    then show ?thesis
      using Some c i1 report_error_frame(1)[of r airline e st1]
      by (simp add: run_airline_def)
  next
    case (Inr quotes)
    obtain w st2 where wq: "write_quotes r airline (take 3 quotes) st1 = (w, st2)"
      by (cases "write_quotes r airline (take 3 quotes) st1")
    have i2: "quit_calls st2 = quit_calls st1"
      using write_quotes_frame(1)[of r airline "take 3 quotes" st1] wq by simp
    show ?thesis
    proof (cases w)
      case None
      then show ?thesis using Some c Inr wq i1 i2 by (simp add: run_airline_def)
    next
      case (Some e)
      then show ?thesis
        using \<open>AIRLINE_FUNCS airline = Some func\<close> c Inr wq i1 i2
          report_error_frame(1)[of r airline e st2]
        by (simp add: run_airline_def)
    qed
  qed
qed







lemmas run_eval =
  run_def run_airline_def AIRLINE_FUNCS_def call_def search_kenya_def search_ethiopian_def
  report_error_def flow_defs timeout_page_def cards_page_def text_card_def sample_route_def
  run_start_def csv_header_def Let_def

section \<open>The adapter registry\<close>



section \<open>Release of the browser session\<close>

text \<open>
  Claim C5. The browser session is released exactly once in every run, however the
  iterate phase ends. \<open>main\<close> (main.py) calls \<open>driver.quit()\<close> in a \<open>finally\<close> clause: once
  the driver is launched, the session is released exactly once whatever the loop does.
  \<open>run\<close> (main1.py) calls \<open>driver.quit()\<close> after the loops without a \<open>finally\<close>: for a
  route without the key "id" whose Kenya Airways search times out, the \<open>KeyError\<close> raised
  in the handler ends the run and \<open>driver.quit()\<close> is not called at all.
\<close>

theorem C5_browser_release:
  "quit_calls (snd (main (Inr df) None web (main_start old_sheet))) = 1
   \<and> run (Inr [sample_route\<lparr>rid := None\<rparr>]) None (\<lambda>n. timeout_page) (run_start [])
       = (Some KeyError,
          \<lparr>visited = [''https://www.kenya-airways.com/en-gh/book-a-flight''], quit_calls = 0,
           csv_file = [Header_line csv_header], stdout = [], invoked = [Search_kenya]\<rparr>)"
proof
  show "quit_calls (snd (main (Inr df) None web (main_start old_sheet))) = 1"
    by (simp add: main_quits_once main_start_def)
next
  show "run (Inr [sample_route\<lparr>rid := None\<rparr>]) None (\<lambda>n. timeout_page) (run_start [])
       = (Some KeyError,
          \<lparr>visited = [''https://www.kenya-airways.com/en-gh/book-a-flight''], quit_calls = 0,
           csv_file = [Header_line csv_header], stdout = [], invoked = [Search_kenya]\<rparr>)"
    by (simp add: run_eval)
qed

section \<open>main1.py: invariants of the loops\<close>

text \<open>A property of the state that each loop body keeps is kept by the loops.\<close>

lemma run_airlines_invariant:
  assumes step: "\<And>airline st. P st \<Longrightarrow> P (snd (run_airline web r airline st))"
    and init: "P st"
  shows "P (snd (run_airlines web r names st))"
  using init
proof (induction names arbitrary: st)
  case Nil
  then show ?case by simp
next
  case (Cons airline rest)
  obtain w st1 where ra: "run_airline web r airline st = (w, st1)"
    by (cases "run_airline web r airline st")
  have "P st1" using step[OF Cons.prems, of airline] ra by simp
  then show ?case using ra Cons.IH[of st1] Cons.prems by (cases w) simp_all
qed

lemma run_routes_invariant:
  assumes step: "\<And>r airline st. P st \<Longrightarrow> P (snd (run_airline web r airline st))"
    and init: "P st"
  shows "P (snd (run_routes web routes st))"
  using init
proof (induction routes arbitrary: st)
  case Nil
  then show ?case by simp
next
  case (Cons r rs)
  show ?case
  proof (cases "airlines r")
    case None
    then show ?thesis using Cons.prems by simp
  next
    case (Some names)
    obtain w st1 where ra: "run_airlines web r names st = (w, st1)"
      by (cases "run_airlines web r names st")
    have "P st1"
      using run_airlines_invariant[of P web r st names, OF step Cons.prems] ra by simp
    then show ?thesis using Some ra Cons.IH[of st1] by (cases w) simp_all
  qed
qed

lemma run_routes_quit: "quit_calls (snd (run_routes web routes st)) = quit_calls st"
  by (rule run_routes_invariant[where P = "\<lambda>s. quit_calls s = quit_calls st"])
     (simp_all add: run_airline_quit)

text \<open>When the loops of \<open>run\<close> end without an exception, the session is released once.\<close>

lemma run_quits_after_loops:
  "fst (run (Inr routes) None web st) = None \<Longrightarrow>
     quit_calls (snd (run (Inr routes) None web st)) = quit_calls st + 1"
proof -
  assume a: "fst (run (Inr routes) None web st) = None"
  let ?st1 = "st\<lparr>csv_file := [Header_line csv_header]\<rparr>"
  obtain w st2 where rr: "run_routes web routes ?st1 = (w, st2)"
    by (cases "run_routes web routes ?st1")
  have q: "quit_calls st2 = quit_calls st"
    using run_routes_quit[of web routes ?st1] rr by simp
  show ?thesis using a rr q by (cases w) (simp_all add: run_def Let_def)
qed










lemmas main_eval =
  main_def fetch_price_def logging_def headcount_of_def unique_def clean_code_def make_url_def
  str_int_def str_nat.simps DEPARTURE_DATES_def RETURN_DATE_def CURRENCY_def sample_roster_def
  timeout_listing_def fare_listing_def main_start_def Let_def char_of_def bit_iff_odd

section \<open>A run that fetched nothing\<close>






section \<open>A wait that times out\<close>

lemma run_airline_adapter_raises:
  assumes reg: "AIRLINE_FUNCS airline = Some func"
    and raised: "fst (call func pages r rs) = Inl e"
    and ident: "rid r = Some i"
  shows "run_airline pages r airline rs
           = (None, (snd (call func pages r rs))\<lparr>stdout := stdout rs @ [Error_line airline i e]\<rparr>)"
proof -
  obtain st1 where c: "call func pages r rs = (Inl e, st1)"
    using raised by (cases "call func pages r rs") simp
  have "stdout st1 = stdout rs"
    using call_frame(3)[of func pages r rs] c by simp
  then show ?thesis
    using reg c ident by (simp add: run_airline_def report_error_def)
qed

text \<open>
  Claim C3, as amended. When the bounded wait for the results times out, the adapter
  function itself raises \<open>TimeoutException\<close> to its caller: \<open>search_ethiopian\<close>,
  \<open>search_kenya\<close> and \<open>fetch_price\<close> have no handler of their own. The exception is caught
  one level up: in main1.py by the \<open>try\<close> of \<open>run\<close>, which prints the error line for a
  route that has an "id", writes no row and goes on; in main.py by the \<open>try\<close> inside the
  loop over the departure dates, which logs the failure, adds no row and goes on with the
  next date.
\<close>

theorem C3_timeout:
  "(origin r = Some org \<and> dest r = Some dst \<and> depart r = Some (dep # deps) \<and> ret r = Some rt
      \<and> adults r = Some n \<and> get_error (pages (length (visited st))) = None
      \<and> results (pages (length (visited st))) = Inl TimeoutException \<longrightarrow>
      fst (search_ethiopian pages r st) = Inl TimeoutException)
   \<and> (origin r = Some org \<and> dest r = Some dst \<and> depart r = Some (dep # deps) \<and> ret r = Some rt
      \<and> get_error (pages (length (visited st))) = None
      \<and> form (pages (length (visited st))) = (\<lambda>k. None)
      \<and> results (pages (length (visited st))) = Inl TimeoutException \<longrightarrow>
      fst (search_kenya pages r st) = Inl TimeoutException)
   \<and> (price_span (web (length (visited ms))) = Inl TimeoutException \<longrightarrow>
      fst (fetch_price web url ms) = Inl TimeoutException)
   \<and> (AIRLINE_FUNCS airline = Some func \<and> fst (call func pages r rs) = Inl e \<and> rid r = Some i \<longrightarrow>
      run_airline pages r airline rs
        = (None, (snd (call func pages r rs))\<lparr>stdout := stdout rs @ [Error_line airline i e]\<rparr>)
      \<and> csv_file (snd (run_airline pages r airline rs)) = csv_file rs)
   \<and> (fst (fetch_price web (make_url code day RETURN_DATE pax) ms) = Inl e \<longrightarrow>
      fetch_dates web city code pax (day # days) ms
        = fetch_dates web city code pax days
            (logging ERROR (No_price city day e)
               (snd (fetch_price web (make_url code day RETURN_DATE pax) ms)))
      \<and> rows (snd (fetch_price web (make_url code day RETURN_DATE pax) ms)) = rows ms)"
proof (intro conjI impI)
  assume "origin r = Some org \<and> dest r = Some dst \<and> depart r = Some (dep # deps) \<and> ret r = Some rt
      \<and> adults r = Some n \<and> get_error (pages (length (visited st))) = None
      \<and> results (pages (length (visited st))) = Inl TimeoutException"
  then show "fst (search_ethiopian pages r st) = Inl TimeoutException"
    by (simp add: search_ethiopian_def flow_defs)
next
  assume "origin r = Some org \<and> dest r = Some dst \<and> depart r = Some (dep # deps) \<and> ret r = Some rt
      \<and> get_error (pages (length (visited st))) = None
      \<and> form (pages (length (visited st))) = (\<lambda>k. None)
      \<and> results (pages (length (visited st))) = Inl TimeoutException"
  then show "fst (search_kenya pages r st) = Inl TimeoutException"
    by (simp add: search_kenya_def flow_defs Let_def)
next
  assume "price_span (web (length (visited ms))) = Inl TimeoutException"
  then show "fst (fetch_price web url ms) = Inl TimeoutException"
    by (simp add: fetch_price_def Let_def)
next
  assume a: "AIRLINE_FUNCS airline = Some func \<and> fst (call func pages r rs) = Inl e \<and> rid r = Some i"
  then show eq: "run_airline pages r airline rs
        = (None, (snd (call func pages r rs))\<lparr>stdout := stdout rs @ [Error_line airline i e]\<rparr>)"
    using run_airline_adapter_raises[of airline func pages r rs e i] by simp
  show "csv_file (snd (run_airline pages r airline rs)) = csv_file rs"
    using eq call_frame(2)[of func pages r rs] by simp
next
  assume a: "fst (fetch_price web (make_url code day RETURN_DATE pax) ms) = Inl e"
  then show "fetch_dates web city code pax (day # days) ms
        = fetch_dates web city code pax days
            (logging ERROR (No_price city day e)
               (snd (fetch_price web (make_url code day RETURN_DATE pax) ms)))"
    by (cases "fetch_price web (make_url code day RETURN_DATE pax) ms") simp
  show "rows (snd (fetch_price web (make_url code day RETURN_DATE pax) ms)) = rows ms"
    by (rule fetch_price_frame(3))
qed

text \<open>
  The claim as stated fails: with a page whose results never appear, each of the three
  adapter functions ends with the exception, not with an empty list.
\<close>

theorem C3_timeout_counterexample:
  "fst (search_kenya (\<lambda>n. timeout_page) sample_route (run_start [])) = Inl TimeoutException
   \<and> fst (search_ethiopian (\<lambda>n. timeout_page) sample_route (run_start [])) = Inl TimeoutException
   \<and> fst (fetch_price (\<lambda>n. timeout_listing) (make_url ''jnb'' ''2025-07-06'' RETURN_DATE 9)
            (main_start None)) = Inl TimeoutException"
  by (simp add: search_kenya_def search_ethiopian_def fetch_price_def flow_defs timeout_page_def
      timeout_listing_def sample_route_def run_start_def main_start_def Let_def)

theorem C3_timeout_witness:
  "origin sample_route = Some ''jnb'' \<and> dest sample_route = Some ''acc''
   \<and> depart sample_route = Some [''2025-07-06'', ''2025-07-07'']
   \<and> ret sample_route = Some ''2025-07-09'' \<and> adults sample_route = Some 9
   \<and> rid sample_route = Some ''jnb-acc''
   \<and> get_error timeout_page = None \<and> form timeout_page = (\<lambda>k. None)
   \<and> results timeout_page = Inl TimeoutException
   \<and> price_span timeout_listing = Inl TimeoutException
   \<and> AIRLINE_FUNCS ''Kenya Airways'' = Some Search_kenya
   \<and> fst (call Search_kenya (\<lambda>n. timeout_page) sample_route (run_start [])) = Inl TimeoutException
   \<and> fst (search_ethiopian (\<lambda>n. timeout_page) sample_route (run_start [])) = Inl TimeoutException
   \<and> fst (search_kenya (\<lambda>n. timeout_page) sample_route (run_start [])) = Inl TimeoutException
   \<and> fst (fetch_price (\<lambda>n. timeout_listing) (make_url ''jnb'' ''2025-07-06'' RETURN_DATE 9)
            (main_start None)) = Inl TimeoutException
   \<and> run_airline (\<lambda>n. timeout_page) sample_route ''Kenya Airways'' (run_start [])
       = (None,
          (snd (call Search_kenya (\<lambda>n. timeout_page) sample_route (run_start [])))
            \<lparr>stdout := [Error_line ''Kenya Airways'' ''jnb-acc'' TimeoutException]\<rparr>)
   \<and> csv_file (snd (run_airline (\<lambda>n. timeout_page) sample_route ''Kenya Airways'' (run_start [])))
       = []
   \<and> rows (snd (fetch_price (\<lambda>n. timeout_listing) (make_url ''jnb'' ''2025-07-06'' RETURN_DATE 9)
              (main_start None))) = []"
proof -
  have r: "origin sample_route = Some ''jnb''" "dest sample_route = Some ''acc''"
    "depart sample_route = Some [''2025-07-06'', ''2025-07-07'']"
    "ret sample_route = Some ''2025-07-09''" "adults sample_route = Some 9"
    "rid sample_route = Some ''jnb-acc''"
    by (simp_all add: sample_route_def)
  have p: "get_error timeout_page = None" "form timeout_page = (\<lambda>k. None)"
    "results timeout_page = Inl TimeoutException"
    "price_span timeout_listing = Inl TimeoutException"
    by (simp_all add: timeout_page_def timeout_listing_def)
  have reg: "AIRLINE_FUNCS ''Kenya Airways'' = Some Search_kenya"
    by (simp add: AIRLINE_FUNCS_def)
  have c: "fst (call Search_kenya (\<lambda>n. timeout_page) sample_route (run_start [])) = Inl TimeoutException"
    by (simp add: call_def search_kenya_def flow_defs r p Let_def)
  have s: "stdout (run_start []) = []" "csv_file (run_start []) = []" "rows (main_start None) = []"
    by (simp_all add: run_start_def main_start_def)
  show ?thesis
    using C3_timeout[of sample_route "''jnb''" "''acc''" "''2025-07-06''" "[''2025-07-07'']"
        "''2025-07-09''" 9 "\<lambda>n. timeout_page" "run_start []" "\<lambda>n. timeout_listing"
        "main_start None" "make_url ''jnb'' ''2025-07-06'' RETURN_DATE 9"
        "''Kenya Airways''" Search_kenya "run_start []" TimeoutException "''jnb-acc''"
        "''jnb''" "''2025-07-06''" 9 "''Johannesburg (JNB)''" "[]"]
    by (simp add: r p reg c s call_frame(2))
qed

section \<open>main.py: the pages loaded and the rows collected\<close>

lemma fetch_dates_visited:
  "visited (fetch_dates web city code pax days st)
     = visited st @ map (\<lambda>day. make_url code day RETURN_DATE pax) days"
proof (induction days arbitrary: st)
  case Nil
  show ?case by simp
next
  case (Cons day days)
  obtain res st1 where f: "fetch_price web (make_url code day RETURN_DATE pax) st = (res, st1)"
    by (cases "fetch_price web (make_url code day RETURN_DATE pax) st")
  have v: "visited st1 = visited st @ [make_url code day RETURN_DATE pax]"
    using fetch_price_frame(4)[of web "make_url code day RETURN_DATE pax" st] f by simp
  show ?case using f v Cons.IH
    by (cases res) (auto split: prod.splits)
qed

lemma fetch_dates_rows:
  "\<exists>new. rows (fetch_dates web city code pax days st) = rows st @ new
         \<and> list_all (\<lambda>row. City row = city \<and> SeatsCapable row = pax) new"
proof (induction days arbitrary: st)
  case Nil
  show ?case by simp
next
  case (Cons day days)
  obtain res st1 where f: "fetch_price web (make_url code day RETURN_DATE pax) st = (res, st1)"
    by (cases "fetch_price web (make_url code day RETURN_DATE pax) st")
  have r1: "rows st1 = rows st"
    using fetch_price_frame(3)[of web "make_url code day RETURN_DATE pax" st] f by simp
  show ?case
  proof (cases res)
    case (Inl e)
    obtain new where
      "rows (fetch_dates web city code pax days (logging ERROR (No_price city day e) st1))
         = rows (logging ERROR (No_price city day e) st1) @ new"
      "list_all (\<lambda>row. City row = city \<and> SeatsCapable row = pax) new"
      using Cons.IH[of "logging ERROR (No_price city day e) st1"] by blast
    then show ?thesis using f Inl r1 by auto
  next
    case (Inr found)
    obtain airline cost where fc: "found = (airline, cost)" by (cases found)
    let ?row = "\<lparr>City = city, Airline = airline, ArriveDate = day, ReturnDate = RETURN_DATE,
                  FareType = ''WebEco'', SeatsCapable = pax, RoundtripCost = cost\<rparr>"
    obtain new where n:
      "rows (fetch_dates web city code pax days (st1\<lparr>rows := rows st1 @ [?row]\<rparr>))
         = rows (st1\<lparr>rows := rows st1 @ [?row]\<rparr>) @ new"
      "list_all (\<lambda>row. City row = city \<and> SeatsCapable row = pax) new"
      using Cons.IH[of "st1\<lparr>rows := rows st1 @ [?row]\<rparr>"] by blast
    have "rows (fetch_dates web city code pax (day # days) st) = rows st @ (?row # new)"
      using f Inr fc r1 n(1) by simp
    moreover have "list_all (\<lambda>row. City row = city \<and> SeatsCapable row = pax) (?row # new)"
      using n(2) by simp
    ultimately show ?thesis by blast
  qed
qed

lemma match_here_length: "match_here s = Some g \<Longrightarrow> length g = 3"
  by (induction s rule: match_here.induct) (auto split: if_splits)

lemma re_search_length: "re_search s = Some g \<Longrightarrow> length g = 3"
  by (induction s) (auto split: option.splits dest: match_here_length)

lemma clean_code_length: "clean_code city = Some code \<Longrightarrow> length code = 3"
  by (auto simp: clean_code_def lower_def split: option.splits dest: re_search_length)

lemma main_loop_city:
  assumes "\<not> contains ''Accra'' city" and "clean_code city = Some code"
    and "headcount_of df city = Inr h"
  shows "main_loop web df (city # cities) st
           = main_loop web df cities
               (fetch_dates web city code (min h 9) DEPARTURE_DATES
                  (logging INFO (Travellers city h) st))"
proof -
  have "code \<noteq> []" using clean_code_length[OF assms(2)] by auto
  then show ?thesis using assms by simp
qed

text \<open>A property of the rows that every new row of a processed city has is kept.\<close>

lemma main_loop_rows:
  assumes init: "list_all (\<lambda>row. \<not> contains ''Accra'' (City row)) (rows st)"
  shows "list_all (\<lambda>row. \<not> contains ''Accra'' (City row)) (rows (snd (main_loop web df cities st)))"
  using init
proof (induction cities arbitrary: st)
  case Nil
  then show ?case by simp
next
  case (Cons city cities)
  show ?case
  proof (cases "contains ''Accra'' city")
    case True
    then show ?thesis using Cons by simp
  next
    case False
    have step: "list_all (\<lambda>row. \<not> contains ''Accra'' (City row))
        (rows (fetch_dates web city code pax DEPARTURE_DATES (logging INFO (Travellers city h) st)))"
      for code pax h
    proof -
      obtain new where
        "rows (fetch_dates web city code pax DEPARTURE_DATES (logging INFO (Travellers city h) st))
           = rows (logging INFO (Travellers city h) st) @ new"
        "list_all (\<lambda>row. City row = city \<and> SeatsCapable row = pax) new"
        using fetch_dates_rows[of web city code pax DEPARTURE_DATES
            "logging INFO (Travellers city h) st"] by blast
      then show ?thesis using Cons.prems False by (auto simp: list_all_iff)
    qed
    show ?thesis
      using False Cons.prems Cons.IH step
      by (auto split: option.splits sum.splits)
  qed
qed

lemma make_url_accra: "accra_url (make_url code day ret_date pax)"
  unfolding accra_url_def make_url_def by blast

lemma main_loop_visited:
  assumes init: "list_all accra_url (visited st)"
  shows "list_all accra_url (visited (snd (main_loop web df cities st)))"
  using init
proof (induction cities arbitrary: st)
  case Nil
  then show ?case by simp
next
  case (Cons city cities)
  have step: "list_all accra_url
      (visited (fetch_dates web city code pax DEPARTURE_DATES (logging INFO (Travellers city h) st)))"
    for code pax h
    using Cons.prems by (auto simp: fetch_dates_visited list_all_iff make_url_accra)
  show ?case
    using Cons.prems Cons.IH step
    by (auto split: option.splits sum.splits)
qed

lemma main_rows_no_accra:
  "list_all (\<lambda>row. \<not> contains ''Accra'' (City row))
     (rows (snd (main workbook launch web (main_start old_sheet))))"
proof (cases workbook)
  case (Inl e)
  then show ?thesis by (simp add: main_def main_start_def)
next
  case (Inr df)
  show ?thesis
  proof (cases launch)
    case (Some e)
    then show ?thesis using Inr by (simp add: main_def)
  next
    case None
    let ?st0 = "logging INFO Driver_launched ((main_start old_sheet)\<lparr>rows := []\<rparr>)"
    obtain res st1 where m: "main_loop web df (unique (map fst df)) ?st0 = (res, st1)"
      by (cases "main_loop web df (unique (map fst df)) ?st0")
    have "list_all (\<lambda>row. \<not> contains ''Accra'' (City row)) (rows st1)"
      using main_loop_rows[of ?st0 web df "unique (map fst df)"] m by simp
    then show ?thesis
      using Inr None m
      by (cases res; cases "rows st1 = []") (simp_all add: main_def Let_def)
  qed
qed

lemma main_visited_accra:
  "list_all accra_url (visited (snd (main workbook launch web (main_start old_sheet))))"
proof (cases workbook)
  case (Inl e)
  then show ?thesis by (simp add: main_def main_start_def)
next
  case (Inr df)
  show ?thesis
  proof (cases launch)
    case (Some e)
    then show ?thesis using Inr by (simp add: main_def main_start_def)
  next
    case None
    let ?st0 = "logging INFO Driver_launched ((main_start old_sheet)\<lparr>rows := []\<rparr>)"
    obtain res st1 where m: "main_loop web df (unique (map fst df)) ?st0 = (res, st1)"
      by (cases "main_loop web df (unique (map fst df)) ?st0")
    have "list_all accra_url (visited st1)"
      using main_loop_visited[of ?st0 web df "unique (map fst df)"] m
      by (simp add: main_start_def)
    then show ?thesis
      using Inr None m
      by (cases res; cases "rows st1 = []") (simp_all add: main_def Let_def)
  qed
qed

lemma sample_main_fares:
  "main (Inr sample_roster) None (\<lambda>n. fare_listing) (main_start None)
     = (None,
        \<lparr>visited =
           [''https://www.skyscanner.com/transport/flights/jnb/acc/20250706/20250709/?adults=9&currency=USD&preferdirects=false'',
            ''https://www.skyscanner.com/transport/flights/jnb/acc/20250707/20250709/?adults=9&currency=USD&preferdirects=false''],
         quit_calls = 1,
         rows =
           [\<lparr>City = ''Johannesburg (JNB)'', Airline = ''Ethiopian Airlines'',
             ArriveDate = ''2025-07-06'', ReturnDate = ''2025-07-09'', FareType = ''WebEco'',
             SeatsCapable = 9, RoundtripCost = Finite 850\<rparr>,
            \<lparr>City = ''Johannesburg (JNB)'', Airline = ''Ethiopian Airlines'',
             ArriveDate = ''2025-07-07'', ReturnDate = ''2025-07-09'', FareType = ''WebEco'',
             SeatsCapable = 9, RoundtripCost = Finite 850\<rparr>],
         log =
           [(INFO, Driver_launched),
            (INFO, Travellers ''Johannesburg (JNB)'' 50),
            (INFO, Loading ''https://www.skyscanner.com/transport/flights/jnb/acc/20250706/20250709/?adults=9&currency=USD&preferdirects=false''),
            (INFO, Found ''Ethiopian Airlines'' ''$850.00''),
            (INFO, Loading ''https://www.skyscanner.com/transport/flights/jnb/acc/20250707/20250709/?adults=9&currency=USD&preferdirects=false''),
            (INFO, Found ''Ethiopian Airlines'' ''$850.00''),
            (WARNING, Could_not_parse ''Nairobi''),
            (INFO, Browser_closed),
            (INFO, Collected 2),
            (INFO, Sheet_overwritten)],
         sheet =
           Some
             [\<lparr>City = ''Johannesburg (JNB)'', Airline = ''Ethiopian Airlines'',
               ArriveDate = ''2025-07-06'', ReturnDate = ''2025-07-09'', FareType = ''WebEco'',
               SeatsCapable = 9, RoundtripCost = Finite 850\<rparr>,
              \<lparr>City = ''Johannesburg (JNB)'', Airline = ''Ethiopian Airlines'',
               ArriveDate = ''2025-07-07'', ReturnDate = ''2025-07-09'', FareType = ''WebEco'',
               SeatsCapable = 9, RoundtripCost = Finite 850\<rparr>]\<rparr>)"
  by (simp add: main_eval py_defs char_class_defs parse_defs)

section \<open>The fixed destination\<close>

text \<open>
  Claim C9. \<open>make_url\<close> has no destination parameter: for every origin code, dates and
  passenger count the address it builds has the destination segment \<open>acc\<close>. Every page
  that a run of main.py loads is such an address, and no row that it collects belongs to
  a city whose label contains "Accra".
\<close>

theorem C9_destination_accra:
  "make_url org dep_date ret_date pax
     = ''https://www.skyscanner.com/transport/flights/'' @ org @ ''/acc/''
       @ replace ''-'' [] dep_date @ ''/'' @ replace ''-'' [] ret_date
       @ ''/?adults='' @ str_int pax @ ''&currency=USD&preferdirects=false''
   \<and> list_all accra_url (visited (snd (main workbook launch web (main_start old_sheet))))
   \<and> list_all (\<lambda>row. \<not> contains ''Accra'' (City row))
        (rows (snd (main workbook launch web (main_start old_sheet))))"
proof (intro conjI)
  show "make_url org dep_date ret_date pax
     = ''https://www.skyscanner.com/transport/flights/'' @ org @ ''/acc/''
       @ replace ''-'' [] dep_date @ ''/'' @ replace ''-'' [] ret_date
       @ ''/?adults='' @ str_int pax @ ''&currency=USD&preferdirects=false''"
    by (simp add: make_url_def CURRENCY_def)
next
  show "list_all accra_url (visited (snd (main workbook launch web (main_start old_sheet))))"
    by (rule main_visited_accra)
next
  show "list_all (\<lambda>row. \<not> contains ''Accra'' (City row))
        (rows (snd (main workbook launch web (main_start old_sheet))))"
    by (rule main_rows_no_accra)
qed

theorem C9_destination_accra_witness:
  "visited (snd (main (Inr sample_roster) None (\<lambda>n. fare_listing) (main_start None)))
     = [''https://www.skyscanner.com/transport/flights/jnb/acc/20250706/20250709/?adults=9&currency=USD&preferdirects=false'',
        ''https://www.skyscanner.com/transport/flights/jnb/acc/20250707/20250709/?adults=9&currency=USD&preferdirects=false'']
   \<and> list_all accra_url
        (visited (snd (main (Inr sample_roster) None (\<lambda>n. fare_listing) (main_start None))))
   \<and> map City (rows (snd (main (Inr sample_roster) None (\<lambda>n. fare_listing) (main_start None))))
       = [''Johannesburg (JNB)'', ''Johannesburg (JNB)'']
   \<and> list_all (\<lambda>row. \<not> contains ''Accra'' (City row))
        (rows (snd (main (Inr sample_roster) None (\<lambda>n. fare_listing) (main_start None))))"
  using C9_destination_accra[of "''jnb''" "''2025-07-06''" "''2025-07-09''" 9 "Inr sample_roster" None
      "\<lambda>n. fare_listing" None]
  by (simp add: sample_main_fares)

section \<open>The passenger count\<close>

lemma search_ethiopian_visited:
  assumes "origin r = Some org" "dest r = Some dst" "depart r = Some (dep # deps)"
    "ret r = Some rt" "adults r = Some n"
  shows "visited (snd (search_ethiopian pages r s)) = visited s @ [ethiopian_url org dst dep rt n]"
  using assms by (simp add: search_ethiopian_def flow_defs)

lemma search_kenya_ignores_adults:
  "search_kenya pages (r\<lparr>adults := a\<rparr>) s = search_kenya pages r s"
  by (simp add: search_kenya_def)

text \<open>
  Claim C7, as amended. In main.py the passenger count is \<open>min(headcount, 9)\<close>, computed
  before any query of the city: every address loaded for the city is built with it and
  every row collected for the city records it as \<open>SeatsCapable\<close>. main1.py reads no roster
  and clamps nothing: \<open>search_ethiopian\<close> writes \<open>r["pax"]["adults"]\<close> into its address as it
  is, and \<open>search_kenya\<close> does not depend on the passenger count at all.
\<close>

theorem C7_passenger_count:
  "(\<not> contains ''Accra'' city \<and> clean_code city = Some code \<and> headcount_of df city = Inr h \<longrightarrow>
      main_loop web df (city # cities) st
        = main_loop web df cities
            (fetch_dates web city code (min h 9) DEPARTURE_DATES
               (logging INFO (Travellers city h) st)))
   \<and> visited (fetch_dates web city code pax days st)
       = visited st @ map (\<lambda>day. make_url code day RETURN_DATE pax) days
   \<and> (\<exists>new. rows (fetch_dates web city code pax days st) = rows st @ new
         \<and> list_all (\<lambda>row. City row = city \<and> SeatsCapable row = pax) new)
   \<and> make_url code day RETURN_DATE pax
       = ''https://www.skyscanner.com/transport/flights/'' @ code @ ''/acc/''
         @ replace ''-'' [] day @ ''/'' @ replace ''-'' [] RETURN_DATE
         @ ''/?adults='' @ str_int pax @ ''&currency=USD&preferdirects=false''
   \<and> (origin r = Some org \<and> dest r = Some dst \<and> depart r = Some (dep # deps) \<and> ret r = Some rt
        \<and> adults r = Some n \<longrightarrow>
      visited (snd (search_ethiopian pages r s))
        = visited s
          @ [''https://book.ethiopianairlines.com/et/booking/flight-results?tripType=RT&origin=''
             @ org @ ''&destination='' @ dst @ ''&departureDate='' @ dep @ ''&returnDate='' @ rt
             @ ''&adults='' @ str_int n @ ''&currency=USD''])
   \<and> search_kenya pages (r\<lparr>adults := a\<rparr>) s = search_kenya pages r s"
proof (intro conjI impI)
  assume "\<not> contains ''Accra'' city \<and> clean_code city = Some code \<and> headcount_of df city = Inr h"
  then show "main_loop web df (city # cities) st
        = main_loop web df cities
            (fetch_dates web city code (min h 9) DEPARTURE_DATES
               (logging INFO (Travellers city h) st))"
    using main_loop_city[of city code df h web cities st] by simp
next
  show "visited (fetch_dates web city code pax days st)
       = visited st @ map (\<lambda>day. make_url code day RETURN_DATE pax) days"
    by (rule fetch_dates_visited)
next
  show "\<exists>new. rows (fetch_dates web city code pax days st) = rows st @ new
         \<and> list_all (\<lambda>row. City row = city \<and> SeatsCapable row = pax) new"
    by (rule fetch_dates_rows)
next
  show "make_url code day RETURN_DATE pax
       = ''https://www.skyscanner.com/transport/flights/'' @ code @ ''/acc/''
         @ replace ''-'' [] day @ ''/'' @ replace ''-'' [] RETURN_DATE
         @ ''/?adults='' @ str_int pax @ ''&currency=USD&preferdirects=false''"
    by (simp add: make_url_def CURRENCY_def)
next
  assume "origin r = Some org \<and> dest r = Some dst \<and> depart r = Some (dep # deps) \<and> ret r = Some rt
        \<and> adults r = Some n"
  then show "visited (snd (search_ethiopian pages r s))
        = visited s
          @ [''https://book.ethiopianairlines.com/et/booking/flight-results?tripType=RT&origin=''
             @ org @ ''&destination='' @ dst @ ''&departureDate='' @ dep @ ''&returnDate='' @ rt
             @ ''&adults='' @ str_int n @ ''&currency=USD'']"
    using search_ethiopian_visited[of r org dst dep deps rt n pages s]
    by (simp add: ethiopian_url_def)
next
  show "search_kenya pages (r\<lparr>adults := a\<rparr>) s = search_kenya pages r s"
    by (rule search_kenya_ignores_adults)
qed

text \<open>
  The claim as stated fails for main1.py: for a route with fifty adults the address that
  \<open>search_ethiopian\<close> loads asks for fifty adults, not nine.
\<close>

theorem C7_passenger_count_counterexample:
  "visited (snd (search_ethiopian (\<lambda>n. timeout_page) (sample_route\<lparr>adults := Some 50\<rparr>)
                  (run_start [])))
     = [''https://book.ethiopianairlines.com/et/booking/flight-results?tripType=RT&origin=jnb&destination=acc&departureDate=2025-07-06&returnDate=2025-07-09&adults=50&currency=USD'']"
  by (simp add: search_ethiopian_def ethiopian_url_def flow_defs sample_route_def run_start_def
      str_int_def str_nat.simps char_of_def bit_iff_odd)

theorem C7_passenger_count_witness:
  "\<not> contains ''Accra'' ''Johannesburg (JNB)''
   \<and> clean_code ''Johannesburg (JNB)'' = Some ''jnb''
   \<and> headcount_of sample_roster ''Johannesburg (JNB)'' = Inr 50
   \<and> main_loop (\<lambda>n. fare_listing) sample_roster [''Johannesburg (JNB)''] (main_start None)
       = (None,
          fetch_dates (\<lambda>n. fare_listing) ''Johannesburg (JNB)'' ''jnb'' 9 DEPARTURE_DATES
            (logging INFO (Travellers ''Johannesburg (JNB)'' 50) (main_start None)))
   \<and> origin sample_route = Some ''jnb'' \<and> dest sample_route = Some ''acc''
   \<and> depart sample_route = Some [''2025-07-06'', ''2025-07-07'']
   \<and> ret sample_route = Some ''2025-07-09'' \<and> adults sample_route = Some 9
   \<and> visited (snd (search_ethiopian (\<lambda>n. timeout_page) sample_route (run_start [])))
       = [''https://book.ethiopianairlines.com/et/booking/flight-results?tripType=RT&origin=jnb&destination=acc&departureDate=2025-07-06&returnDate=2025-07-09&adults=9&currency=USD'']"
proof -
  have c: "\<not> contains ''Accra'' ''Johannesburg (JNB)''"
    "clean_code ''Johannesburg (JNB)'' = Some ''jnb''"
    "headcount_of sample_roster ''Johannesburg (JNB)'' = Inr 50"
    by (simp_all add: clean_code_def headcount_of_def sample_roster_def lower_def to_lower_def
        char_class_defs char_of_def bit_iff_odd)
  have r: "origin sample_route = Some ''jnb''" "dest sample_route = Some ''acc''"
    "depart sample_route = Some [''2025-07-06'', ''2025-07-07'']"
    "ret sample_route = Some ''2025-07-09''" "adults sample_route = Some 9"
    by (simp_all add: sample_route_def)
  have n: "str_int 9 = ''9''"
    by (simp add: str_int_def str_nat.simps char_of_def bit_iff_odd)
  have v: "visited (run_start []) = []"
    by (simp add: run_start_def)
  show ?thesis
    using C7_passenger_count[of "''Johannesburg (JNB)''" "''jnb''" sample_roster 50
        "\<lambda>n. fare_listing" "[]" "main_start None" 9 "[]" "''2025-07-06''"
        sample_route "''jnb''" "''acc''" "''2025-07-06''" "[''2025-07-07'']" "''2025-07-09''" 9
        "\<lambda>n. timeout_page" "run_start []" None]
    by (simp add: c r n v)
qed

section \<open>Extraction of the airport code\<close>














section \<open>What the number readers accept\<close>





























section \<open>Price normalisation\<close>




section \<open>Signs of the price and of the stop count\<close>




end
